theory Spec2Isabelle
  imports Complex_Main
begin

section \<open>SnapVault secure file access (src/lib/secure-access.ts)\<close>

text \<open>
  A shallow embedding of the secure file-access module. JavaScript numbers are modelled
  as \<open>int\<close> (seconds, milliseconds, counters), optional fields as \<open>option\<close>, a thrown
  exception as the \<open>Inl\<close> branch of a sum carrying the error message, and the storage
  collaborator as an explicit state \<open>db\<close> that every asynchronous function takes and
  returns. What the module reads from its surroundings (session and user rows, the
  JSON-web-token library, the hash function, whether a storage call throws) is collected
  in the record \<open>env\<close>; clock readings and generated identifiers are explicit arguments.
\<close>

subsection \<open>Data model\<close>

text \<open>The row type \<open>File\<close> of src/lib/database.ts; the columns that secure-access.ts never
  reads (filename, original_name, mime_type, size, upload_path, created_at, description)
  are left out.\<close>

record File =
  id_file :: string
  user_id :: string
  access_token :: string
  expires_at :: "string option"
  download_count :: nat
  is_public :: bool

text \<open>\<open>Omit<FileAccessLog, 'id' | 'created_at'>\<close>, and \<open>FileAccessLog\<close> as its extension.\<close>

record LogData =
  file_id :: string
  user_id_log :: "string option"
  ip_address :: "string option"
  user_agent :: "string option"
  action_log :: string
  success :: bool
  error_message :: "string option"

record FileAccessLog = LogData +
  id_log :: string
  created_at :: string

record SecureFileAccess =
  canAccess :: bool
  reason :: "string option"
  requiresAuth :: "bool option"
  isOwner :: "bool option"

text \<open>Rows and values of src/lib/auth.ts and src/lib/database.ts used by \<open>verifySession\<close>.\<close>

record AuthUser =
  id_user :: string
  username :: string
  email :: string

record User =
  id_u :: string
  username_u :: string
  email_u :: string

record Session =
  user_id_session :: string

record session_jwt =
  userId_jwt :: "string option"
  sessionId_jwt :: "string option"

datatype action = Download | View | Info

fun action_str :: "action \<Rightarrow> string" where
  "action_str Download = ''download''"
| "action_str View = ''view''"
| "action_str Info = ''info''"

record SignedUrlOptions =
  fileId :: string
  userId :: string
  expiresIn :: "int option"
  action :: "action option"
  ipAddress :: "string option"
  userAgent :: "string option"

text \<open>The object that \<open>generateSignedUrl\<close> signs and \<open>jwt.verify\<close> decodes.\<close>

record token_payload =
  fileId_pl :: string
  userId_pl :: string
  action_pl :: string
  exp_pl :: int
  iat_pl :: int
  ip_pl :: "string option"
  ua_pl :: "string option"

text \<open>The storage state: the files table and the append-only access log.\<close>

record db =
  files :: "string \<Rightarrow> File option"
  file_access_logs :: "FileAccessLog list"

text \<open>
  The surroundings of one call. A storage call throws when the corresponding
  \<open>_error\<close> field gives a message. \<open>getFileAccessLogsSince\<close> is the storage query of that
  name (its body is not among the sources), taken as it answers: the rows of a file
  created since an instant, here in milliseconds, or a thrown error. \<open>verifyJWT\<close> is \<open>jwt.verify\<close> with the session secret,
  already wrapped in its \<open>try\<close>/\<open>catch\<close> (auth.ts, \<open>null\<close> on any error). \<open>jwt_sign\<close> and
  \<open>jwt_decode\<close> are the HS256 signing and the signature-checking decoder of the
  jsonwebtoken library under \<open>SIGNED_URL_SECRET\<close>; \<open>sha256_hex\<close> is
  \<open>crypto.createHash('sha256').update(s).digest('hex')\<close>; \<open>Date_parse\<close> is the time value
  of \<open>new Date(s)\<close> in milliseconds, \<open>None\<close> for an invalid date.
\<close>

record env =
  verifyJWT :: "string \<Rightarrow> session_jwt option"
  getSessionByToken :: "string \<Rightarrow> string + Session option"
  getUserById :: "string \<Rightarrow> string + User option"
  getFileById_error :: "string \<Rightarrow> string option"
  createFileAccessLog_error :: "FileAccessLog \<Rightarrow> string option"
  updateFileAccessToken_error :: "string \<Rightarrow> string \<Rightarrow> string option"
  getFileAccessLogsSince :: "string \<Rightarrow> int \<Rightarrow> string + FileAccessLog list"
  Date_parse :: "string \<Rightarrow> int option"
  jwt_sign :: "token_payload \<Rightarrow> string"
  jwt_decode :: "string \<Rightarrow> token_payload option"
  sha256_hex :: "string \<Rightarrow> string"

text \<open>The values \<open>crypto.randomUUID()\<close> and \<open>new Date().toISOString()\<close> of one log write.\<close>

record stamp =
  uuid :: string
  iso :: string

text \<open>JavaScript truthiness of an optional string: \<open>undefined\<close> and \<open>""\<close> are falsy.\<close>

fun truthy :: "string option \<Rightarrow> bool" where
  "truthy None = False"
| "truthy (Some s) = (s \<noteq> [])"

subsection \<open>Storage collaborator\<close>

text \<open>\<open>database.getFileById\<close> (src/lib/database.ts): the row with that primary key, or
  \<open>null\<close>; the query may throw.\<close>

definition getFileById :: "env \<Rightarrow> db \<Rightarrow> string \<Rightarrow> string + File option" where
  "getFileById e d i =
     (case getFileById_error e i of
        Some msg \<Rightarrow> Inl msg
      | None \<Rightarrow> Inr (files d i))"

text \<open>Modelled from the spec: \<open>createAccessLogEntry(entry)\<close> (the source calls it
  \<open>database.createFileAccessLog\<close>; its body is not among the sources). The sink is
  append-only: the call appends one entry, or throws and stores nothing.\<close>

definition createFileAccessLog :: "env \<Rightarrow> FileAccessLog \<Rightarrow> db \<Rightarrow> string + db" where
  "createFileAccessLog e entry d =
     (case createFileAccessLog_error e entry of
        Some msg \<Rightarrow> Inl msg
      | None \<Rightarrow> Inr (d\<lparr>file_access_logs := file_access_logs d @ [entry]\<rparr>))"

text \<open>Modelled from the spec: \<open>updateFileAccessToken(id, newToken)\<close> (its body is not among
  the sources). It replaces the \<open>accessToken\<close> of the file with that id and touches nothing
  else; for an unknown id no row changes; the call may throw, and then nothing is
  stored.\<close>

definition updateFileAccessToken :: "env \<Rightarrow> string \<Rightarrow> string \<Rightarrow> db \<Rightarrow> string + db" where
  "updateFileAccessToken e i t d =
     (case updateFileAccessToken_error e i t of
        Some msg \<Rightarrow> Inl msg
      | None \<Rightarrow>
          (case files d i of
             None \<Rightarrow> Inr d
           | Some f \<Rightarrow> Inr (d\<lparr>files := (files d)(i \<mapsto> f\<lparr>access_token := t\<rparr>)\<rparr>)))"

subsection \<open>Session verification (src/lib/auth.ts)\<close>

text \<open>\<open>verifySession\<close>: every failure, thrown errors included, gives \<open>null\<close>.\<close>

definition verifySession :: "env \<Rightarrow> string \<Rightarrow> AuthUser option" where
  "verifySession e token =
     (if token = [] then None
      else
        (case verifyJWT e token of
           None \<Rightarrow> None
         | Some decoded \<Rightarrow>
             if \<not> truthy (userId_jwt decoded) then None
             else if \<not> truthy (sessionId_jwt decoded) then None
             else
               (case getSessionByToken e token of
                  Inl err \<Rightarrow> None
                | Inr None \<Rightarrow> None
                | Inr (Some session) \<Rightarrow>
                    (case getUserById e (user_id_session session) of
                       Inl err \<Rightarrow> None
                     | Inr None \<Rightarrow> None
                     | Inr (Some user) \<Rightarrow>
                         Some \<lparr>id_user = id_u user, username = username_u user,
                               email = email_u user\<rparr>))))"

subsection \<open>Audit log sink\<close>

text \<open>\<open>logFileAccess\<close>: builds the entry and writes it; a throwing write is caught and the
  function returns normally, the state as it was.\<close>

definition logFileAccess :: "env \<Rightarrow> stamp \<Rightarrow> LogData \<Rightarrow> db \<Rightarrow> db" where
  "logFileAccess e st logData d =
     (let logEntry =
            \<lparr>file_id = file_id logData, user_id_log = user_id_log logData,
             ip_address = ip_address logData, user_agent = user_agent logData,
             action_log = action_log logData, success = success logData,
             error_message = error_message logData,
             id_log = uuid st, created_at = iso st\<rparr>
      in case createFileAccessLog e logEntry d of
           Inl err \<Rightarrow> d
         | Inr d' \<Rightarrow> d')"

subsection \<open>Access decision\<close>

text \<open>The expiry test of \<open>checkFileAccess\<close>: \<open>file.expires_at\<close> is truthy and
  \<open>new Date(file.expires_at) < new Date()\<close>; a comparison with an invalid date is false.\<close>

definition fileHasExpired :: "env \<Rightarrow> int \<Rightarrow> File \<Rightarrow> bool" where
  "fileHasExpired e now file =
     (case expires_at file of
        None \<Rightarrow> False
      | Some s \<Rightarrow>
          if s = [] then False
          else (case Date_parse e s of
                  None \<Rightarrow> False
                | Some expiryDate \<Rightarrow> expiryDate < now))"

definition checkFileAccess ::
  "env \<Rightarrow> int \<Rightarrow> stamp \<Rightarrow> string \<Rightarrow> string option \<Rightarrow> string option \<Rightarrow> string option
     \<Rightarrow> db \<Rightarrow> SecureFileAccess \<times> db" where
  "checkFileAccess e now st fileId' sessionToken ipAddress' userAgent' d =
     (case getFileById e d fileId' of
        Inl message \<Rightarrow>
          (\<lparr>canAccess = False, reason = Some ''Access check failed'',
            requiresAuth = None, isOwner = None\<rparr>,
           logFileAccess e st
             \<lparr>file_id = fileId', user_id_log = None, ip_address = ipAddress',
              user_agent = userAgent', action_log = ''access_check'', success = False,
              error_message = Some message\<rparr> d)
      | Inr None \<Rightarrow>
          (\<lparr>canAccess = False, reason = Some ''File not found'',
            requiresAuth = None, isOwner = None\<rparr>, d)
      | Inr (Some file) \<Rightarrow>
          if fileHasExpired e now file then
            (\<lparr>canAccess = False, reason = Some ''File has expired'',
              requiresAuth = None, isOwner = None\<rparr>, d)
          else if is_public file then
            (\<lparr>canAccess = True, reason = None, requiresAuth = None, isOwner = Some False\<rparr>,
             logFileAccess e st
               \<lparr>file_id = fileId', user_id_log = None, ip_address = ipAddress',
                user_agent = userAgent', action_log = ''access_check'', success = True,
                error_message = None\<rparr> d)
          else
            (case (if truthy sessionToken then sessionToken else None) of
               None \<Rightarrow>
                 (\<lparr>canAccess = False,
                   reason = Some ''Authentication required for private file'',
                   requiresAuth = Some True, isOwner = None\<rparr>, d)
             | Some token \<Rightarrow>
            (case verifySession e token of
               None \<Rightarrow>
                 (\<lparr>canAccess = False, reason = Some ''Invalid or expired session'',
                   requiresAuth = Some True, isOwner = None\<rparr>,
                  logFileAccess e st
                    \<lparr>file_id = fileId', user_id_log = None, ip_address = ipAddress',
                     user_agent = userAgent', action_log = ''access_check'', success = False,
                     error_message = Some ''Invalid session''\<rparr> d)
             | Some user \<Rightarrow>
                 if user_id file \<noteq> id_user user then
                   (\<lparr>canAccess = False,
                     reason = Some ''Access denied - you are not the owner of this file'',
                     requiresAuth = None, isOwner = None\<rparr>,
                    logFileAccess e st
                      \<lparr>file_id = fileId', user_id_log = Some (id_user user),
                       ip_address = ipAddress', user_agent = userAgent',
                       action_log = ''access_check'', success = False,
                       error_message = Some ''Access denied - not file owner''\<rparr> d)
                 else
                   (\<lparr>canAccess = True, reason = None, requiresAuth = None,
                     isOwner = Some True\<rparr>,
                    logFileAccess e st
                      \<lparr>file_id = fileId', user_id_log = Some (id_user user),
                       ip_address = ipAddress', user_agent = userAgent',
                       action_log = ''access_check'', success = True,
                       error_message = None\<rparr> d))))"

subsection \<open>Capability token codec\<close>

definition DEFAULT_URL_EXPIRY :: int where
  "DEFAULT_URL_EXPIRY = 15 * 60"

definition MAX_URL_EXPIRY :: int where
  "MAX_URL_EXPIRY = 24 * 60 * 60"

text \<open>The payload object of \<open>generateSignedUrl\<close>. The function reads the clock twice:
  \<open>t_exp\<close> is the reading used for \<open>exp\<close>, \<open>t_iat\<close> the later one used for \<open>iat\<close>, both in
  milliseconds. The defaults of the destructuring apply to absent fields only.\<close>

definition signedUrlPayload :: "env \<Rightarrow> int \<Rightarrow> int \<Rightarrow> SignedUrlOptions \<Rightarrow> token_payload" where
  "signedUrlPayload e t_exp t_iat options =
     (let expiresIn' = (case expiresIn options of None \<Rightarrow> DEFAULT_URL_EXPIRY | Some n \<Rightarrow> n);
          action' = (case action options of None \<Rightarrow> Download | Some a \<Rightarrow> a);
          actualExpiry = min expiresIn' MAX_URL_EXPIRY;
          expiresAt = t_exp div 1000 + actualExpiry
      in \<lparr>fileId_pl = fileId options, userId_pl = userId options,
          action_pl = action_str action', exp_pl = expiresAt, iat_pl = t_iat div 1000,
          ip_pl = (if truthy (ipAddress options)
                   then map_option (sha256_hex e) (ipAddress options) else None),
          ua_pl = (if truthy (userAgent options)
                   then map_option (sha256_hex e) (userAgent options) else None)\<rparr>)"

definition signedUrlToken :: "env \<Rightarrow> int \<Rightarrow> int \<Rightarrow> SignedUrlOptions \<Rightarrow> string" where
  "signedUrlToken e t_exp t_iat options = jwt_sign e (signedUrlPayload e t_exp t_iat options)"

definition generateSignedUrl :: "env \<Rightarrow> int \<Rightarrow> int \<Rightarrow> SignedUrlOptions \<Rightarrow> string" where
  "generateSignedUrl e t_exp t_iat options =
     ''/api/files/secure/'' @ fileId options @ ''?token='' @
       signedUrlToken e t_exp t_iat options @ ''&action='' @
       action_str (case action options of None \<Rightarrow> Download | Some a \<Rightarrow> a)"

text \<open>\<open>jwt.verify(token, secret)\<close> of the jsonwebtoken library, which is not part of the
  repository: a token that does not decode or whose signature is wrong throws
  \<open>JsonWebTokenError\<close>; after that, a token with \<open>exp\<close> at or before the current second
  throws \<open>TokenExpiredError\<close>; otherwise the payload is returned. \<open>OtherError\<close> stands for
  any other thrown value, which the last line of the \<open>catch\<close> block handles.\<close>

datatype jwt_error = TokenExpiredError | JsonWebTokenError | OtherError

definition jwt_verify :: "env \<Rightarrow> int \<Rightarrow> string \<Rightarrow> jwt_error + token_payload" where
  "jwt_verify e now token =
     (case jwt_decode e token of
        None \<Rightarrow> Inl JsonWebTokenError
      | Some decoded \<Rightarrow>
          if now div 1000 \<ge> exp_pl decoded then Inl TokenExpiredError else Inr decoded)"

record verify_result =
  valid :: bool
  payload :: "token_payload option"
  error :: "string option"

definition verifySignedUrl ::
  "env \<Rightarrow> int \<Rightarrow> string \<Rightarrow> string \<Rightarrow> string \<Rightarrow> string option \<Rightarrow> string option
     \<Rightarrow> verify_result" where
  "verifySignedUrl e now fileId' token action' ipAddress' userAgent' =
     (case jwt_verify e now token of
        Inl TokenExpiredError \<Rightarrow>
          \<lparr>valid = False, payload = None, error = Some ''Signed URL has expired''\<rparr>
      | Inl JsonWebTokenError \<Rightarrow>
          \<lparr>valid = False, payload = None, error = Some ''Invalid signed URL''\<rparr>
      | Inl OtherError \<Rightarrow>
          \<lparr>valid = False, payload = None, error = Some ''URL verification failed''\<rparr>
      | Inr decoded \<Rightarrow>
          if fileId_pl decoded \<noteq> fileId' then
            \<lparr>valid = False, payload = None, error = Some ''File ID mismatch''\<rparr>
          else if action_pl decoded \<noteq> action' then
            \<lparr>valid = False, payload = None, error = Some ''Action mismatch''\<rparr>
          else if truthy (ip_pl decoded) \<and> truthy ipAddress' \<and>
                  ip_pl decoded \<noteq> map_option (sha256_hex e) ipAddress' then
            \<lparr>valid = False, payload = None, error = Some ''IP address mismatch''\<rparr>
          else if truthy (ua_pl decoded) \<and> truthy userAgent' \<and>
                  ua_pl decoded \<noteq> map_option (sha256_hex e) userAgent' then
            \<lparr>valid = False, payload = None, error = Some ''User agent mismatch''\<rparr>
          else \<lparr>valid = True, payload = Some decoded, error = None\<rparr>)"

subsection \<open>URL issuance\<close>

record url_options =
  expiresIn_o :: "int option"
  action_o :: "action option"
  ipAddress_o :: "string option"
  userAgent_o :: "string option"

record url_result =
  success_url :: bool
  url :: "string option"
  error_url :: "string option"

text \<open>JavaScript \<open>a || b\<close> on an optional string.\<close>

fun or_else :: "string option \<Rightarrow> string \<Rightarrow> string" where
  "or_else None dflt = dflt"
| "or_else (Some s) dflt = (if s = [] then dflt else s)"

text \<open>\<open>generateSecureDownloadUrl\<close>. \<open>st1\<close> stamps the log write of the access check, \<open>st2\<close>
  the one of the issuance. Nothing in the \<open>try\<close> block throws in this model
  (\<open>checkFileAccess\<close>, \<open>verifySession\<close> and \<open>logFileAccess\<close> catch their own errors, and
  signing is total), so the \<open>catch\<close> block has no branch here.\<close>

definition generateSecureDownloadUrl ::
  "env \<Rightarrow> int \<Rightarrow> stamp \<Rightarrow> int \<Rightarrow> int \<Rightarrow> stamp \<Rightarrow> string \<Rightarrow> string \<Rightarrow> url_options
     \<Rightarrow> db \<Rightarrow> url_result \<times> db" where
  "generateSecureDownloadUrl e now st1 t_exp t_iat st2 fileId' sessionToken options d =
     (case checkFileAccess e now st1 fileId' (Some sessionToken)
             (ipAddress_o options) (userAgent_o options) d of
        (accessCheck, d1) \<Rightarrow>
          if \<not> canAccess accessCheck then
            (\<lparr>success_url = False, url = None,
              error_url = Some (or_else (reason accessCheck) ''Access denied'')\<rparr>, d1)
          else
            (case verifySession e sessionToken of
               None \<Rightarrow>
                 (\<lparr>success_url = False, url = None, error_url = Some ''Invalid session''\<rparr>, d1)
             | Some user \<Rightarrow>
                 (let signedUrl = generateSignedUrl e t_exp t_iat
                        \<lparr>fileId = fileId', userId = id_user user,
                         expiresIn = expiresIn_o options, action = action_o options,
                         ipAddress = ipAddress_o options, userAgent = userAgent_o options\<rparr>
                  in (\<lparr>success_url = True, url = Some signedUrl, error_url = None\<rparr>,
                      logFileAccess e st2
                        \<lparr>file_id = fileId', user_id_log = Some (id_user user),
                         ip_address = ipAddress_o options, user_agent = userAgent_o options,
                         action_log = ''generate_'' @
                           action_str (case action_o options of None \<Rightarrow> Download | Some a \<Rightarrow> a)
                           @ ''_url'',
                         success = True, error_message = None\<rparr> d1))))"

subsection \<open>Revocation\<close>

record revoke_result =
  success_rev :: bool
  newAccessToken :: "string option"
  error_rev :: "string option"

text \<open>\<open>revokeFileAccess\<close>. \<open>generated\<close> is the value of
  \<open>crypto.randomBytes(32).toString('hex')\<close> for this call.\<close>

definition revokeFileAccess ::
  "env \<Rightarrow> string \<Rightarrow> stamp \<Rightarrow> string \<Rightarrow> string \<Rightarrow> db \<Rightarrow> revoke_result \<times> db" where
  "revokeFileAccess e generated st fileId' userId' d =
     (case getFileById e d fileId' of
        Inl message \<Rightarrow>
          (\<lparr>success_rev = False, newAccessToken = None,
            error_rev = Some ''Failed to revoke access''\<rparr>, d)
      | Inr None \<Rightarrow>
          (\<lparr>success_rev = False, newAccessToken = None,
            error_rev = Some ''File not found''\<rparr>, d)
      | Inr (Some file) \<Rightarrow>
          if user_id file \<noteq> userId' then
            (\<lparr>success_rev = False, newAccessToken = None,
              error_rev = Some ''Access denied - you are not the owner of this file''\<rparr>, d)
          else
            (case updateFileAccessToken e fileId' generated d of
               Inl message \<Rightarrow>
                 (\<lparr>success_rev = False, newAccessToken = None,
                   error_rev = Some ''Failed to revoke access''\<rparr>, d)
             | Inr d1 \<Rightarrow>
                 (\<lparr>success_rev = True, newAccessToken = Some generated, error_rev = None\<rparr>,
                  logFileAccess e st
                    \<lparr>file_id = fileId', user_id_log = Some userId', ip_address = None,
                     user_agent = None, action_log = ''revoke_access'', success = True,
                     error_message = None\<rparr> d1)))"

subsection \<open>Anomaly detector\<close>

record suspicious_result =
  isSuspicious :: bool
  reasons :: "string list"
  accessCount :: nat
  uniqueIPs :: nat

text \<open>Decimal rendering of a number inside a template string.\<close>

fun show_nat :: "nat \<Rightarrow> string" where
  "show_nat n =
     (if n < 10 then [char_of (48 + n)]
      else show_nat (n div 10) @ [char_of (48 + n mod 10)])"

definition show_int :: "int \<Rightarrow> string" where
  "show_int i = (if i < 0 then CHR ''-'' # show_nat (nat (- i)) else show_nat (nat i))"

text \<open>\<open>Set.prototype.add\<close> on a set kept in insertion order.\<close>

definition set_add :: "string \<Rightarrow> string list \<Rightarrow> string list" where
  "set_add x xs = (if x \<in> set xs then xs else xs @ [x])"

text \<open>The \<open>for\<close> loop of \<open>detectSuspiciousActivity\<close> over the rows, with its two
  accumulators \<open>ipAddresses\<close> and \<open>failedAttempts\<close>.\<close>

fun scanLogs :: "FileAccessLog list \<Rightarrow> string list \<Rightarrow> nat \<Rightarrow> string list \<times> nat" where
  "scanLogs [] ipAddresses failedAttempts = (ipAddresses, failedAttempts)"
| "scanLogs (entry # logs) ipAddresses failedAttempts =
     scanLogs logs
       (case ip_address entry of
          None \<Rightarrow> ipAddresses
        | Some ip \<Rightarrow> if ip = [] then ipAddresses else set_add ip ipAddresses)
       (if \<not> success entry then failedAttempts + 1 else failedAttempts)"

text \<open>\<open>Math.round\<close> on a non-negative ratio; the quotient \<open>failedAttempts / logs.length\<close> is
  taken exactly, as a rational.\<close>

definition Math_round :: "rat \<Rightarrow> int" where
  "Math_round x = \<lfloor>x + 1 / 2\<rfloor>"

text \<open>The largest time value of a JavaScript \<open>Date\<close>; beyond it \<open>toISOString\<close> throws.\<close>

definition MAX_TIME_VALUE :: int where
  "MAX_TIME_VALUE = 8640000000000000"

definition detectSuspiciousActivity ::
  "env \<Rightarrow> int \<Rightarrow> string \<Rightarrow> int \<Rightarrow> suspicious_result" where
  "detectSuspiciousActivity e now fileId' timeWindowHours =
     (let since = now - timeWindowHours * 60 * 60 * 1000;
          failed = \<lparr>isSuspicious = False, reasons = [], accessCount = 0, uniqueIPs = 0\<rparr>
      in if \<bar>since\<bar> > MAX_TIME_VALUE then failed
         else
           (case getFileAccessLogsSince e fileId' since of
              Inl err \<Rightarrow> failed
            | Inr logs \<Rightarrow>
                (case scanLogs logs [] 0 of
                   (ipAddresses, failedAttempts) \<Rightarrow>
                     (let failureRate =
                            (if length logs > 0
                             then (of_nat failedAttempts :: rat) / of_nat (length logs)
                             else 0);
                          reasons' =
                            (if length logs > 100
                             then [''High access volume: '' @ show_nat (length logs) @
                                   '' requests in '' @ show_int timeWindowHours @ ''h'']
                             else []) @
                            (if length ipAddresses > 20
                             then [''Many unique IPs: '' @ show_nat (length ipAddresses) @
                                   '' different addresses'']
                             else []) @
                            (if failedAttempts > 20
                             then [''Many failed attempts: '' @ show_nat failedAttempts @
                                   '' failures'']
                             else []) @
                            (if failureRate > 1 / 2 \<and> length logs > 10
                             then [''High failure rate: '' @
                                   show_int (Math_round (failureRate * 100)) @ ''%'']
                             else [])
                      in \<lparr>isSuspicious = length reasons' > 0, reasons = reasons',
                          accessCount = length logs,
                          uniqueIPs = length ipAddresses\<rparr>))))"

subsection \<open>Rate limiter\<close>

record attempts =
  count :: int
  resetTime :: int

record rate_result =
  allowed :: bool
  remaining :: int
  resetTime_r :: int

text \<open>\<open>checkRateLimit\<close> on the module-level map \<open>accessAttempts\<close>, passed in and returned.\<close>

definition checkRateLimit ::
  "int \<Rightarrow> string \<Rightarrow> int \<Rightarrow> int \<Rightarrow> (string \<Rightarrow> attempts option)
     \<Rightarrow> rate_result \<times> (string \<Rightarrow> attempts option)" where
  "checkRateLimit now identifier maxAttempts windowMinutes accessAttempts =
     (let windowMs = windowMinutes * 60 * 1000
      in case (case accessAttempts identifier of
                 None \<Rightarrow> None
               | Some current \<Rightarrow> if now > resetTime current then None else Some current) of
           None \<Rightarrow>
             (let resetTime' = now + windowMs
              in (\<lparr>allowed = True, remaining = maxAttempts - 1, resetTime_r = resetTime'\<rparr>,
                  accessAttempts(identifier \<mapsto> \<lparr>count = 1, resetTime = resetTime'\<rparr>)))
         | Some current \<Rightarrow>
             if count current \<ge> maxAttempts then
               (\<lparr>allowed = False, remaining = 0, resetTime_r = resetTime current\<rparr>,
                accessAttempts)
             else
               (let current' = current\<lparr>count := count current + 1\<rparr>
                in (\<lparr>allowed = True, remaining = maxAttempts - count current',
                     resetTime_r = resetTime current'\<rparr>,
                    accessAttempts(identifier \<mapsto> current'))))"

subsection \<open>The verification order as the specification words it\<close>

text \<open>
  The specification's \<open>Verify\<close>: after decoding, the checks run in the order expiry, file
  id, action, IP fingerprint, user-agent fingerprint, and the first one that fails gives
  the result; a binding is checked only if the claim carries the fingerprint and a current
  value is supplied. This definition follows the specification, not the source; the
  expiry test is the library's (the current second has reached \<open>exp\<close>).
\<close>

datatype verify_failure =
  InvalidToken | TokenExpired | FileIdMismatch | ActionMismatch | IpMismatch
  | UserAgentMismatch

fun first_failure :: "(bool \<times> verify_failure) list \<Rightarrow> verify_failure option" where
  "first_failure [] = None"
| "first_failure ((fails, f) # checks) = (if fails then Some f else first_failure checks)"

definition binding_violated :: "env \<Rightarrow> string option \<Rightarrow> string option \<Rightarrow> bool" where
  "binding_violated e fingerprint current =
     (truthy fingerprint \<and> truthy current \<and>
      fingerprint \<noteq> map_option (sha256_hex e) current)"

definition Verify_spec ::
  "env \<Rightarrow> int \<Rightarrow> string \<Rightarrow> string \<Rightarrow> string \<Rightarrow> string option \<Rightarrow> string option
     \<Rightarrow> verify_failure + token_payload" where
  "Verify_spec e now token expectedFileId expectedAction currentIp currentUserAgent =
     (case jwt_decode e token of
        None \<Rightarrow> Inl InvalidToken
      | Some claim \<Rightarrow>
          (case first_failure
                  [(now div 1000 \<ge> exp_pl claim, TokenExpired),
                   (fileId_pl claim \<noteq> expectedFileId, FileIdMismatch),
                   (action_pl claim \<noteq> expectedAction, ActionMismatch),
                   (binding_violated e (ip_pl claim) currentIp, IpMismatch),
                   (binding_violated e (ua_pl claim) currentUserAgent, UserAgentMismatch)] of
             Some f \<Rightarrow> Inl f
           | None \<Rightarrow> Inr claim))"

text \<open>The message the source returns for each failure class.\<close>

fun failure_message :: "verify_failure \<Rightarrow> string" where
  "failure_message InvalidToken = ''Invalid signed URL''"
| "failure_message TokenExpired = ''Signed URL has expired''"
| "failure_message FileIdMismatch = ''File ID mismatch''"
| "failure_message ActionMismatch = ''Action mismatch''"
| "failure_message IpMismatch = ''IP address mismatch''"
| "failure_message UserAgentMismatch = ''User agent mismatch''"

subsection \<open>Concrete surroundings for the examples\<close>

definition private_file :: File where
  "private_file =
     \<lparr>id_file = ''f1'', user_id = ''alice'', access_token = ''0a1b'', expires_at = None,
      download_count = 0, is_public = False\<rparr>"

definition public_file :: File where
  "public_file =
     \<lparr>id_file = ''f2'', user_id = ''alice'', access_token = ''2c3d'', expires_at = None,
      download_count = 0, is_public = True\<rparr>"

definition vault_db :: db where
  "vault_db =
     \<lparr>files = [''f1'' \<mapsto> private_file, ''f2'' \<mapsto> public_file], file_access_logs = []\<rparr>"

definition log_stamp :: stamp where
  "log_stamp = \<lparr>uuid = ''u-1'', iso = ''2024-01-01T00:00:00.000Z''\<rparr>"

definition log_stamp2 :: stamp where
  "log_stamp2 = \<lparr>uuid = ''u-2'', iso = ''2024-01-01T00:00:00.001Z''\<rparr>"

text \<open>The options and the payload of one issuance: file \<open>f1\<close> for \<open>alice\<close>, one hour,
  bound to an IP address, clock at 1700000000 seconds.\<close>

definition issue_options :: SignedUrlOptions where
  "issue_options =
     \<lparr>fileId = ''f1'', userId = ''alice'', expiresIn = Some 3600, action = Some View,
      ipAddress = Some ''10.0.0.7'', userAgent = None\<rparr>"

definition issued_payload :: token_payload where
  "issued_payload =
     \<lparr>fileId_pl = ''f1'', userId_pl = ''alice'', action_pl = ''view'',
      exp_pl = 1700003600, iat_pl = 1700000000,
      ip_pl = Some ''sha256:10.0.0.7'', ua_pl = None\<rparr>"

text \<open>Two sessions (\<open>tok-alice\<close>, \<open>tok-bob\<close>), a storage that never throws, a signer that has
  issued the one token \<open>jwt-1\<close>, and a stand-in for the hash.\<close>

definition vault_env :: env where
  "vault_env =
     \<lparr>verifyJWT = (\<lambda>t.
        if t = ''tok-alice'' then Some \<lparr>userId_jwt = Some ''alice'', sessionId_jwt = Some ''s1''\<rparr>
        else if t = ''tok-bob'' then Some \<lparr>userId_jwt = Some ''bob'', sessionId_jwt = Some ''s2''\<rparr>
        else None),
      getSessionByToken = (\<lambda>t.
        if t = ''tok-alice'' then Inr (Some \<lparr>user_id_session = ''alice''\<rparr>)
        else if t = ''tok-bob'' then Inr (Some \<lparr>user_id_session = ''bob''\<rparr>)
        else Inr None),
      getUserById = (\<lambda>i.
        if i = ''alice'' \<or> i = ''bob''
        then Inr (Some \<lparr>id_u = i, username_u = i, email_u = i @ ''@example.org''\<rparr>)
        else Inr None),
      getFileById_error = (\<lambda>i. None),
      createFileAccessLog_error = (\<lambda>entry. None),
      updateFileAccessToken_error = (\<lambda>i t. None),
      getFileAccessLogsSince = (\<lambda>i since. Inr []),
      Date_parse = (\<lambda>s. None),
      jwt_sign = (\<lambda>p. ''jwt-1''),
      jwt_decode = (\<lambda>t. if t = ''jwt-1'' then Some issued_payload else None),
      sha256_hex = (\<lambda>s. ''sha256:'' @ s)\<rparr>"

text \<open>The same surroundings with a storage whose log query throws, and with one whose log
  query answers a single row that carries the placeholder address \<open>unknown\<close>.\<close>

definition broken_logs_env :: env where
  "broken_logs_env = vault_env\<lparr>getFileAccessLogsSince := (\<lambda>i since. Inl ''SQLITE_BUSY'')\<rparr>"

definition unknown_ip_row :: FileAccessLog where
  "unknown_ip_row =
     \<lparr>file_id = ''f1'', user_id_log = None, ip_address = Some ''unknown'',
      user_agent = None, action_log = ''secure_access'', success = True,
      error_message = None, id_log = ''u-0'', created_at = ''2024-01-01T00:00:00.000Z''\<rparr>"

definition unknown_ip_env :: env where
  "unknown_ip_env = vault_env\<lparr>getFileAccessLogsSince := (\<lambda>i since. Inr [unknown_ip_row])\<rparr>"

text \<open>The rate-limiter map after each of four calls for one address, from an empty map,
  three attempts per 15 minutes, one second apart.\<close>

definition after_call1 :: "string \<Rightarrow> attempts option" where
  "after_call1 = snd (checkRateLimit 0 ''10.0.0.7'' 3 15 Map.empty)"

definition after_call2 :: "string \<Rightarrow> attempts option" where
  "after_call2 = snd (checkRateLimit 1000 ''10.0.0.7'' 3 15 after_call1)"

definition after_call3 :: "string \<Rightarrow> attempts option" where
  "after_call3 = snd (checkRateLimit 2000 ''10.0.0.7'' 3 15 after_call2)"

definition after_call4 :: "string \<Rightarrow> attempts option" where
  "after_call4 = snd (checkRateLimit 3000 ''10.0.0.7'' 3 15 after_call3)"


section \<open>Properties\<close>

subsection \<open>Facts about the example surroundings\<close>

lemma verifySession_empty: "verifySession e [] = None"
  by (simp add: verifySession_def)

lemma verifySession_vault_alice:
  "verifySession vault_env ''tok-alice'' =
     Some \<lparr>id_user = ''alice'', username = ''alice'', email = ''alice@example.org''\<rparr>"
  by (simp add: verifySession_def vault_env_def)

lemma verifySession_vault_bob:
  "verifySession vault_env ''tok-bob'' =
     Some \<lparr>id_user = ''bob'', username = ''bob'', email = ''bob@example.org''\<rparr>"
  by (simp add: verifySession_def vault_env_def)

lemma verifySession_vault_other: "verifySession vault_env ''nobody'' = None"
  by (simp add: verifySession_def vault_env_def)

lemma getFileById_vault_f1: "getFileById vault_env vault_db ''f1'' = Inr (Some private_file)"
  by (simp add: getFileById_def vault_env_def vault_db_def)

lemma getFileById_vault_f2: "getFileById vault_env vault_db ''f2'' = Inr (Some public_file)"
  by (simp add: getFileById_def vault_env_def vault_db_def)

lemma private_file_fresh: "\<not> fileHasExpired e now private_file"
  by (simp add: fileHasExpired_def private_file_def)


subsection \<open>Access decision\<close>

text \<open>
  Claim C1. Whenever the storage answers the lookup, \<open>checkFileAccess\<close> decides as the
  state machine of the specification: a missing file is denied; a file whose expiry lies
  in the past is denied; an unexpired public file is allowed with \<open>isOwner = false\<close>,
  whatever the session token; an unexpired private file is denied with
  \<open>requiresAuth = true\<close> when no token is supplied or the token resolves to no user, denied
  without \<open>requiresAuth\<close> when the resolved user is not the owner, and allowed with
  \<open>isOwner = true\<close> when the resolved user is the owner.
\<close>

theorem checkFileAccess_state_machine:
  assumes "getFileById e d fid = Inr fo"
  shows "(fo = None \<longrightarrow> \<not> canAccess (fst (checkFileAccess e now st fid tok ip ua d))) \<and>
    (\<forall>f. fo = Some f \<and> fileHasExpired e now f \<longrightarrow>
       \<not> canAccess (fst (checkFileAccess e now st fid tok ip ua d))) \<and>
    (\<forall>f. fo = Some f \<and> \<not> fileHasExpired e now f \<and> is_public f \<longrightarrow>
       canAccess (fst (checkFileAccess e now st fid tok ip ua d)) \<and>
       isOwner (fst (checkFileAccess e now st fid tok ip ua d)) = Some False) \<and>
    (\<forall>f. fo = Some f \<and> \<not> fileHasExpired e now f \<and> \<not> is_public f \<and>
         (\<forall>t. tok = Some t \<longrightarrow> verifySession e t = None) \<longrightarrow>
       \<not> canAccess (fst (checkFileAccess e now st fid tok ip ua d)) \<and>
       requiresAuth (fst (checkFileAccess e now st fid tok ip ua d)) = Some True) \<and>
    (\<forall>f t u. fo = Some f \<and> \<not> fileHasExpired e now f \<and> \<not> is_public f \<and>
         tok = Some t \<and> verifySession e t = Some u \<and> id_user u \<noteq> user_id f \<longrightarrow>
       \<not> canAccess (fst (checkFileAccess e now st fid tok ip ua d)) \<and>
       requiresAuth (fst (checkFileAccess e now st fid tok ip ua d)) = None) \<and>
    (\<forall>f t u. fo = Some f \<and> \<not> fileHasExpired e now f \<and> \<not> is_public f \<and>
         tok = Some t \<and> verifySession e t = Some u \<and> id_user u = user_id f \<longrightarrow>
       canAccess (fst (checkFileAccess e now st fid tok ip ua d)) \<and>
       isOwner (fst (checkFileAccess e now st fid tok ip ua d)) = Some True)"
proof (cases fo)
  case None
  with assms show ?thesis by (simp add: checkFileAccess_def)
next
  case (Some f)
  note fo = this
  show ?thesis
  proof (cases "fileHasExpired e now f \<or> is_public f")
    case True
    with assms fo show ?thesis by (auto simp: checkFileAccess_def)
  next
    case False
    show ?thesis
    proof (cases tok)
      case None
      with assms fo False show ?thesis by (simp add: checkFileAccess_def)
    next
      case (Some t)
      with assms fo False show ?thesis
        by (cases "t = []"; cases "verifySession e t")
           (simp_all add: checkFileAccess_def verifySession_empty)
    qed
  qed
qed

theorem checkFileAccess_state_machine_witness:
  "getFileById vault_env vault_db ''f1'' = Inr (Some private_file) \<and>
   \<not> fileHasExpired vault_env 1700000000000 private_file \<and>
   \<not> is_public private_file \<and>
   verifySession vault_env ''tok-alice'' =
     Some \<lparr>id_user = ''alice'', username = ''alice'', email = ''alice@example.org''\<rparr> \<and>
   user_id private_file = ''alice'' \<and>
   canAccess (fst (checkFileAccess vault_env 1700000000000 log_stamp ''f1''
                (Some ''tok-alice'') None None vault_db)) \<and>
   isOwner (fst (checkFileAccess vault_env 1700000000000 log_stamp ''f1''
                (Some ''tok-alice'') None None vault_db)) = Some True"
proof -
  have p: "\<not> is_public private_file" and o: "user_id private_file = ''alice''"
    by (simp_all add: private_file_def)
  have "canAccess (fst (checkFileAccess vault_env 1700000000000 log_stamp ''f1''
                (Some ''tok-alice'') None None vault_db)) \<and>
   isOwner (fst (checkFileAccess vault_env 1700000000000 log_stamp ''f1''
                (Some ''tok-alice'') None None vault_db)) = Some True"
    using checkFileAccess_state_machine [OF getFileById_vault_f1,
        of 1700000000000 log_stamp "Some ''tok-alice''" None None,
        THEN conjunct2, THEN conjunct2, THEN conjunct2, THEN conjunct2, THEN conjunct2,
        rule_format, of private_file "''tok-alice''"
          "\<lparr>id_user = ''alice'', username = ''alice'', email = ''alice@example.org''\<rparr>"]
      private_file_fresh p o verifySession_vault_alice
    by simp
  with getFileById_vault_f1 private_file_fresh p o verifySession_vault_alice
  show ?thesis by blast
qed

subsection \<open>Capability token codec\<close>

lemma failure_message_inj: "failure_message a = failure_message b \<Longrightarrow> a = b"
  by (cases a; cases b; simp)

lemma Verify_spec_vault:
  "Verify_spec vault_env 1700000001000 ''jwt-1'' ''f1'' ''view'' (Some ''10.0.0.7'') None =
     Inr issued_payload"
  by (simp add: Verify_spec_def binding_violated_def vault_env_def issued_payload_def)

lemma Verify_spec_vault_other_ip:
  "Verify_spec vault_env 1700000001000 ''jwt-1'' ''f1'' ''view'' (Some ''10.0.0.8'') None =
     Inl IpMismatch"
  by (simp add: Verify_spec_def binding_violated_def vault_env_def issued_payload_def)

lemma signedUrlPayload_vault:
  "signedUrlPayload vault_env 1700000000000 1700000000000 issue_options = issued_payload"
  by (simp add: signedUrlPayload_def issue_options_def issued_payload_def vault_env_def
        MAX_URL_EXPIRY_def Let_def)

text \<open>
  Claim C2. \<open>verifySignedUrl\<close> checks a presented token in the order signature, expiry,
  file id, action, IP fingerprint, user-agent fingerprint, stops at the first check that
  fails and answers with the message of that failure; the six messages are pairwise
  different; a binding is enforced only when the claim carries the fingerprint and the
  current value is supplied; on success the decoded claim is returned. The source function
  agrees with the specification's \<open>Verify\<close> on every input.
\<close>

theorem verifySignedUrl_order:
  "verifySignedUrl e now fid tok act ip ua =
     (case Verify_spec e now tok fid act ip ua of
        Inl f \<Rightarrow> \<lparr>valid = False, payload = None, error = Some (failure_message f)\<rparr>
      | Inr claim \<Rightarrow> \<lparr>valid = True, payload = Some claim, error = None\<rparr>) \<and>
   inj failure_message"
proof
  show "verifySignedUrl e now fid tok act ip ua =
     (case Verify_spec e now tok fid act ip ua of
        Inl f \<Rightarrow> \<lparr>valid = False, payload = None, error = Some (failure_message f)\<rparr>
      | Inr claim \<Rightarrow> \<lparr>valid = True, payload = Some claim, error = None\<rparr>)"
  proof (cases "jwt_decode e tok")
    case None
    then show ?thesis
      by (simp add: verifySignedUrl_def jwt_verify_def Verify_spec_def)
  next
    case (Some claim)
    then show ?thesis
      by (simp add: verifySignedUrl_def jwt_verify_def Verify_spec_def binding_violated_def)
  qed
  show "inj failure_message"
    by (rule injI) (rule failure_message_inj)
qed

theorem verifySignedUrl_order_witness:
  "verifySignedUrl vault_env 1700000001000 ''f1'' ''jwt-1'' ''view'' (Some ''10.0.0.7'') None =
     \<lparr>valid = True, payload = Some issued_payload, error = None\<rparr> \<and>
   verifySignedUrl vault_env 1700000001000 ''f1'' ''jwt-1'' ''view'' (Some ''10.0.0.8'') None =
     \<lparr>valid = False, payload = None, error = Some ''IP address mismatch''\<rparr>"
  using verifySignedUrl_order [of vault_env 1700000001000 "''f1''" "''jwt-1''" "''view''"
          "Some ''10.0.0.7''" None]
        verifySignedUrl_order [of vault_env 1700000001000 "''f1''" "''jwt-1''" "''view''"
          "Some ''10.0.0.8''" None]
  by (simp add: Verify_spec_vault Verify_spec_vault_other_ip)

text \<open>
  Claim C3. A token minted by \<open>generateSignedUrl\<close> verifies: under the signing secret the
  decoder returns what was signed, and if verification happens before the claim's
  \<open>exp\<close>, with the file id and the action of the issuance and with the bound IP address
  and user agent (where one was bound and one is supplied), \<open>verifySignedUrl\<close> answers
  \<open>valid\<close> with the payload that was signed, whose fields are those of the options.
\<close>

theorem verifySignedUrl_accepts_minted:
  assumes codec: "jwt_decode e (jwt_sign e (signedUrlPayload e t_exp t_iat options)) =
                    Some (signedUrlPayload e t_exp t_iat options)"
    and before: "now < exp_pl (signedUrlPayload e t_exp t_iat options) * 1000"
    and same_ip: "truthy (ipAddress options) \<and> truthy ip \<longrightarrow> ip = ipAddress options"
    and same_ua: "truthy (userAgent options) \<and> truthy ua \<longrightarrow> ua = userAgent options"
  shows "verifySignedUrl e now (fileId options) (signedUrlToken e t_exp t_iat options)
           (action_str (case action options of None \<Rightarrow> Download | Some a \<Rightarrow> a)) ip ua =
         \<lparr>valid = True, payload = Some (signedUrlPayload e t_exp t_iat options),
          error = None\<rparr> \<and>
         fileId_pl (signedUrlPayload e t_exp t_iat options) = fileId options \<and>
         userId_pl (signedUrlPayload e t_exp t_iat options) = userId options \<and>
         action_pl (signedUrlPayload e t_exp t_iat options) =
           action_str (case action options of None \<Rightarrow> Download | Some a \<Rightarrow> a)"
proof -
  let ?p = "signedUrlPayload e t_exp t_iat options"
  from before have live: "\<not> now div 1000 \<ge> exp_pl ?p" by linarith
  have fid: "fileId_pl ?p = fileId options" and uid: "userId_pl ?p = userId options"
    and act: "action_pl ?p = action_str (case action options of None \<Rightarrow> Download | Some a \<Rightarrow> a)"
    by (simp_all add: signedUrlPayload_def Let_def)
  have ipf: "ip_pl ?p = (if truthy (ipAddress options)
               then map_option (sha256_hex e) (ipAddress options) else None)"
    and uaf: "ua_pl ?p = (if truthy (userAgent options)
               then map_option (sha256_hex e) (userAgent options) else None)"
    by (simp_all add: signedUrlPayload_def Let_def)
  have ip_ok: "\<not> (truthy (ip_pl ?p) \<and> truthy ip \<and> ip_pl ?p \<noteq> map_option (sha256_hex e) ip)"
    using same_ip ipf by (cases "truthy (ipAddress options)") auto
  have ua_ok: "\<not> (truthy (ua_pl ?p) \<and> truthy ua \<and> ua_pl ?p \<noteq> map_option (sha256_hex e) ua)"
    using same_ua uaf by (cases "truthy (userAgent options)") auto
  have "jwt_verify e now (signedUrlToken e t_exp t_iat options) = Inr ?p"
    using codec live by (simp add: jwt_verify_def signedUrlToken_def)
  then have "verifySignedUrl e now (fileId options) (signedUrlToken e t_exp t_iat options)
           (action_str (case action options of None \<Rightarrow> Download | Some a \<Rightarrow> a)) ip ua =
         \<lparr>valid = True, payload = Some ?p, error = None\<rparr>"
    using fid act ip_ok ua_ok by (simp add: verifySignedUrl_def)
  with fid uid act show ?thesis by simp
qed

theorem verifySignedUrl_accepts_minted_witness:
  "jwt_decode vault_env
     (jwt_sign vault_env (signedUrlPayload vault_env 1700000000000 1700000000000 issue_options)) =
     Some (signedUrlPayload vault_env 1700000000000 1700000000000 issue_options) \<and>
   1700000001000 <
     exp_pl (signedUrlPayload vault_env 1700000000000 1700000000000 issue_options) * 1000 \<and>
   verifySignedUrl vault_env 1700000001000 ''f1''
     (signedUrlToken vault_env 1700000000000 1700000000000 issue_options) ''view''
     (Some ''10.0.0.7'') None =
     \<lparr>valid = True, payload = Some issued_payload, error = None\<rparr>"
proof -
  have codec: "jwt_decode vault_env
     (jwt_sign vault_env (signedUrlPayload vault_env 1700000000000 1700000000000 issue_options)) =
     Some (signedUrlPayload vault_env 1700000000000 1700000000000 issue_options)"
    by (simp add: signedUrlPayload_vault) (simp add: vault_env_def)
  have before: "1700000001000 <
     exp_pl (signedUrlPayload vault_env 1700000000000 1700000000000 issue_options) * 1000"
    by (simp add: signedUrlPayload_vault) (simp add: issued_payload_def)
  have ip: "truthy (ipAddress issue_options) \<and> truthy (Some ''10.0.0.7'') \<longrightarrow>
              Some ''10.0.0.7'' = ipAddress issue_options"
    and ua: "truthy (userAgent issue_options) \<and> truthy None \<longrightarrow> None = userAgent issue_options"
    by (simp_all add: issue_options_def)
  from verifySignedUrl_accepts_minted [OF codec before ip ua]
  have "verifySignedUrl vault_env 1700000001000 ''f1''
     (signedUrlToken vault_env 1700000000000 1700000000000 issue_options) ''view''
     (Some ''10.0.0.7'') None =
     \<lparr>valid = True, payload = Some issued_payload, error = None\<rparr>"
    by (simp add: signedUrlPayload_vault) (simp add: issue_options_def)
  with codec before show ?thesis by blast
qed

text \<open>
  The default lifetime is not substituted for a requested lifetime of zero: the token
  issued for \<open>expiresIn = 0\<close> has \<open>exp = iat\<close>, not \<open>iat\<close> plus fifteen minutes.
\<close>

theorem generateSignedUrl_nonpositive_lifetime_counterexample:
  "exp_pl (signedUrlPayload vault_env 1700000000000 1700000000000
             (issue_options\<lparr>expiresIn := Some 0\<rparr>)) =
   iat_pl (signedUrlPayload vault_env 1700000000000 1700000000000
             (issue_options\<lparr>expiresIn := Some 0\<rparr>)) \<and>
   exp_pl (signedUrlPayload vault_env 1700000000000 1700000000000
             (issue_options\<lparr>expiresIn := Some 0\<rparr>)) \<noteq>
   iat_pl (signedUrlPayload vault_env 1700000000000 1700000000000
             (issue_options\<lparr>expiresIn := Some 0\<rparr>)) + min DEFAULT_URL_EXPIRY MAX_URL_EXPIRY"
  by (simp add: signedUrlPayload_def issue_options_def MAX_URL_EXPIRY_def
        DEFAULT_URL_EXPIRY_def Let_def)

text \<open>
  Claim C4, as the code has it. The URL of \<open>generateSignedUrl\<close> carries the signed
  payload, whose \<open>iat\<close> is the clock in whole seconds and whose \<open>exp\<close> is the clock in whole
  seconds plus the smaller of the lifetime and 24 hours; the lifetime is the requested
  one, whatever its sign, and the 15-minute default only when none is requested. When both
  clock readings fall in the same second, \<open>exp\<close> is \<open>iat\<close> plus that amount; when the clock
  has not run backwards between them, \<open>exp - iat\<close> is at most 24 hours.
\<close>

theorem generateSignedUrl_lifetime:
  "generateSignedUrl e t_exp t_iat options =
     ''/api/files/secure/'' @ fileId options @ ''?token='' @
       jwt_sign e (signedUrlPayload e t_exp t_iat options) @ ''&action='' @
       action_pl (signedUrlPayload e t_exp t_iat options) \<and>
   iat_pl (signedUrlPayload e t_exp t_iat options) = t_iat div 1000 \<and>
   exp_pl (signedUrlPayload e t_exp t_iat options) =
     t_exp div 1000 + min (case expiresIn options of None \<Rightarrow> 900 | Some n \<Rightarrow> n) 86400 \<and>
   (t_exp div 1000 = t_iat div 1000 \<longrightarrow>
      exp_pl (signedUrlPayload e t_exp t_iat options) =
        iat_pl (signedUrlPayload e t_exp t_iat options) +
          min (case expiresIn options of None \<Rightarrow> 900 | Some n \<Rightarrow> n) 86400) \<and>
   (t_exp \<le> t_iat \<longrightarrow>
      exp_pl (signedUrlPayload e t_exp t_iat options) -
        iat_pl (signedUrlPayload e t_exp t_iat options) \<le> 86400)"
proof -
  let ?p = "signedUrlPayload e t_exp t_iat options"
  let ?life = "min (case expiresIn options of None \<Rightarrow> 900 | Some n \<Rightarrow> n) (86400::int)"
  have iat: "iat_pl ?p = t_iat div 1000"
    by (simp add: signedUrlPayload_def Let_def)
  have exp: "exp_pl ?p = t_exp div 1000 + ?life"
    by (simp add: signedUrlPayload_def Let_def DEFAULT_URL_EXPIRY_def MAX_URL_EXPIRY_def
          split: option.splits)
  have act: "action_pl ?p = action_str (case action options of None \<Rightarrow> Download | Some a \<Rightarrow> a)"
    by (simp add: signedUrlPayload_def Let_def)
  have url: "generateSignedUrl e t_exp t_iat options =
     ''/api/files/secure/'' @ fileId options @ ''?token='' @ jwt_sign e ?p @ ''&action='' @
       action_pl ?p"
    by (simp only: generateSignedUrl_def signedUrlToken_def act)
  have mono: "t_exp \<le> t_iat \<Longrightarrow> t_exp div 1000 \<le> t_iat div 1000"
    by (rule zdiv_mono1) simp_all
  have cap: "?life \<le> 86400" by simp
  from iat exp mono cap have bound: "t_exp \<le> t_iat \<longrightarrow> exp_pl ?p - iat_pl ?p \<le> 86400"
    by linarith
  from iat exp have same: "t_exp div 1000 = t_iat div 1000 \<longrightarrow> exp_pl ?p = iat_pl ?p + ?life"
    by simp
  from url iat exp same bound show ?thesis by blast
qed

theorem generateSignedUrl_lifetime_witness:
  "(1700000000000::int) div 1000 = 1700000000999 div 1000 \<and>
   (1700000000000::int) \<le> 1700000000999 \<and>
   iat_pl (signedUrlPayload vault_env 1700000000000 1700000000999
             (issue_options\<lparr>expiresIn := Some 100000\<rparr>)) = 1700000000 \<and>
   exp_pl (signedUrlPayload vault_env 1700000000000 1700000000999
             (issue_options\<lparr>expiresIn := Some 100000\<rparr>)) = 1700086400"
proof -
  have s: "(1700000000000::int) div 1000 = 1700000000999 div 1000" by simp
  have l: "expiresIn (issue_options\<lparr>expiresIn := Some 100000\<rparr>) = Some 100000" by simp
  from generateSignedUrl_lifetime [of vault_env 1700000000000 1700000000999
          "issue_options\<lparr>expiresIn := Some 100000\<rparr>", THEN conjunct2]
  have "iat_pl (signedUrlPayload vault_env 1700000000000 1700000000999
             (issue_options\<lparr>expiresIn := Some 100000\<rparr>)) = 1700000000 \<and>
   exp_pl (signedUrlPayload vault_env 1700000000000 1700000000999
             (issue_options\<lparr>expiresIn := Some 100000\<rparr>)) = 1700086400"
    unfolding l by simp
  with s show ?thesis by simp
qed

subsection \<open>Audit log\<close>

lemma logFileAccess_swallows:
  "createFileAccessLog e
     \<lparr>file_id = file_id logData, user_id_log = user_id_log logData,
      ip_address = ip_address logData, user_agent = user_agent logData,
      action_log = action_log logData, success = success logData,
      error_message = error_message logData, id_log = uuid st, created_at = iso st\<rparr> d = Inl err
   \<Longrightarrow> logFileAccess e st logData d = d"
  by (simp add: logFileAccess_def Let_def)

lemma logFileAccess_length:
  "length (file_access_logs (logFileAccess e st logData d)) \<le> Suc (length (file_access_logs d))"
  by (simp add: logFileAccess_def createFileAccessLog_def Let_def split: option.splits)

lemma logFileAccess_appends:
  "createFileAccessLog_error e = (\<lambda>entry. None) \<Longrightarrow>
   file_access_logs (logFileAccess e st logData d) =
     file_access_logs d @
       [\<lparr>file_id = file_id logData, user_id_log = user_id_log logData,
         ip_address = ip_address logData, user_agent = user_agent logData,
         action_log = action_log logData, success = success logData,
         error_message = error_message logData, id_log = uuid st, created_at = iso st\<rparr>]"
  by (simp add: logFileAccess_def createFileAccessLog_def Let_def)

lemma logFileAccess_files: "files (logFileAccess e st logData d) = files d"
  by (simp add: logFileAccess_def createFileAccessLog_def Let_def split: option.splits)

lemma checkFileAccess_decision_ignores_log_failure:
  "fst (checkFileAccess (e\<lparr>createFileAccessLog_error := g\<rparr>) now st fid tok ip ua d) =
   fst (checkFileAccess e now st fid tok ip ua d)"
  by (simp add: checkFileAccess_def getFileById_def verifySession_def fileHasExpired_def
        split: option.splits sum.splits)

lemma checkFileAccess_unlogged_branches:
  assumes "getFileById e d fid = Inr fo"
    and "fo = None \<or> (\<exists>f. fo = Some f \<and>
           (fileHasExpired e now f \<or> (\<not> is_public f \<and> \<not> truthy tok)))"
  shows "snd (checkFileAccess e now st fid tok ip ua d) = d"
  using assms by (auto simp: checkFileAccess_def)

lemma checkFileAccess_logged_branches:
  assumes writes: "createFileAccessLog_error e = (\<lambda>entry. None)"
    and row: "getFileById e d fid = Inr (Some f)"
    and live: "\<not> fileHasExpired e now f"
    and caller: "is_public f \<or> truthy tok"
  shows "\<exists>entry. snd (checkFileAccess e now st fid tok ip ua d) =
                   d\<lparr>file_access_logs := file_access_logs d @ [entry]\<rparr> \<and>
                 action_log entry = ''access_check'' \<and>
                 success entry = canAccess (fst (checkFileAccess e now st fid tok ip ua d)) \<and>
                 (error_message entry = None) =
                   canAccess (fst (checkFileAccess e now st fid tok ip ua d))"
proof (cases "is_public f")
  case True
  with writes row live show ?thesis
    by (force simp: checkFileAccess_def logFileAccess_def createFileAccessLog_def Let_def)
next
  case False
  with caller obtain t where tok: "tok = Some t" "t \<noteq> []"
    by (cases tok) simp_all
  show ?thesis
  proof (cases "verifySession e t")
    case None
    with writes row live False tok show ?thesis
      by (force simp: checkFileAccess_def logFileAccess_def createFileAccessLog_def Let_def)
  next
    case (Some user)
    with writes row live False tok show ?thesis
      by (force simp: checkFileAccess_def logFileAccess_def createFileAccessLog_def Let_def)
  qed
qed

text \<open>
  Claim C5. Every branch of \<open>checkFileAccess\<close> should append exactly one log entry. The
  branch for a missing file returns before any log write: the lookup of the unknown
  file \<open>f9\<close> is denied with \<open>File not found\<close> and the log is as empty as before. (The
  same holds for an expired file and for a private file without a session token, by
  \<open>checkFileAccess_unlogged_branches\<close>; the other branches write one entry with the
  outcome, by \<open>checkFileAccess_logged_branches\<close>; that a failing log write changes no
  decision is \<open>checkFileAccess_decision_ignores_log_failure\<close>.)
\<close>

theorem checkFileAccess_missing_file_not_logged:
  "checkFileAccess vault_env 1700000000000 log_stamp ''f9'' None None None vault_db =
     (\<lparr>canAccess = False, reason = Some ''File not found'', requiresAuth = None,
       isOwner = None\<rparr>, vault_db) \<and>
   file_access_logs vault_db = []"
  by (simp add: checkFileAccess_def getFileById_def vault_env_def) (simp add: vault_db_def)

subsection \<open>URL issuance\<close>

lemma checkFileAccess_denial_has_reason:
  "\<not> canAccess (fst (checkFileAccess e now st fid tok ip ua d)) \<Longrightarrow>
   \<exists>r. reason (fst (checkFileAccess e now st fid tok ip ua d)) = Some r \<and> r \<noteq> []"
  by (auto simp: checkFileAccess_def split: option.splits sum.splits if_splits)

lemma checkFileAccess_vault_public:
  "fst (checkFileAccess vault_env now st ''f2'' tok ip ua vault_db) =
     \<lparr>canAccess = True, reason = None, requiresAuth = None, isOwner = Some False\<rparr>"
  by (simp add: checkFileAccess_def getFileById_vault_f2)
     (simp add: fileHasExpired_def public_file_def)

lemma checkFileAccess_vault_owner:
  "fst (checkFileAccess vault_env now st ''f1'' (Some ''tok-alice'') ip ua vault_db) =
     \<lparr>canAccess = True, reason = None, requiresAuth = None, isOwner = Some True\<rparr>"
  by (simp add: checkFileAccess_def getFileById_vault_f1 private_file_fresh
        verifySession_vault_alice)
     (simp add: private_file_def)

text \<open>
  A public file reached with a session token that resolves to no user: the access check
  allows, and the issuance answers \<open>Invalid session\<close> with no URL.
\<close>

theorem generateSecureDownloadUrl_public_anonymous_counterexample:
  "canAccess (fst (checkFileAccess vault_env 1700000000000 log_stamp ''f2'' (Some ''nobody'')
                None None vault_db)) \<and>
   verifySession vault_env ''nobody'' = None \<and>
   fst (generateSecureDownloadUrl vault_env 1700000000000 log_stamp 1700000000000
          1700000000000 log_stamp2 ''f2'' ''nobody''
          \<lparr>expiresIn_o = None, action_o = None, ipAddress_o = None, userAgent_o = None\<rparr>
          vault_db) =
     \<lparr>success_url = False, url = None, error_url = Some ''Invalid session''\<rparr>"
proof -
  obtain ac d1 where cfa:
    "checkFileAccess vault_env 1700000000000 log_stamp ''f2'' (Some ''nobody'') None None
       vault_db = (ac, d1)"
    by (cases "checkFileAccess vault_env 1700000000000 log_stamp ''f2'' (Some ''nobody'')
                 None None vault_db")
  with checkFileAccess_vault_public
         [of 1700000000000 log_stamp "Some ''nobody''" None None]
  have ac: "ac = \<lparr>canAccess = True, reason = None, requiresAuth = None,
                    isOwner = Some False\<rparr>"
    by simp
  show ?thesis
    using cfa ac verifySession_vault_other by (simp add: generateSecureDownloadUrl_def)
qed

text \<open>
  Claim C6, as the code has it. \<open>generateSecureDownloadUrl\<close> runs \<open>checkFileAccess\<close> first.
  When access is denied it returns the denial reason and no URL. When access is allowed and
  the session token resolves to a user, it returns the signed URL, minted with that
  user's id as the subject. When access is allowed and the session token resolves to no
  user (a public file), it returns the error \<open>Invalid session\<close> and no URL.
\<close>

theorem generateSecureDownloadUrl_outcomes:
  "(\<not> canAccess (fst (checkFileAccess e now st1 fid (Some tok)
                         (ipAddress_o opts) (userAgent_o opts) d)) \<longrightarrow>
      fst (generateSecureDownloadUrl e now st1 t_exp t_iat st2 fid tok opts d) =
        \<lparr>success_url = False, url = None,
         error_url = reason (fst (checkFileAccess e now st1 fid (Some tok)
                                    (ipAddress_o opts) (userAgent_o opts) d))\<rparr> \<and>
      error_url (fst (generateSecureDownloadUrl e now st1 t_exp t_iat st2 fid tok opts d))
        \<noteq> None) \<and>
   (canAccess (fst (checkFileAccess e now st1 fid (Some tok)
                      (ipAddress_o opts) (userAgent_o opts) d)) \<and>
    verifySession e tok = None \<longrightarrow>
      fst (generateSecureDownloadUrl e now st1 t_exp t_iat st2 fid tok opts d) =
        \<lparr>success_url = False, url = None, error_url = Some ''Invalid session''\<rparr>) \<and>
   (\<forall>u. canAccess (fst (checkFileAccess e now st1 fid (Some tok)
                          (ipAddress_o opts) (userAgent_o opts) d)) \<and>
        verifySession e tok = Some u \<longrightarrow>
      fst (generateSecureDownloadUrl e now st1 t_exp t_iat st2 fid tok opts d) =
        \<lparr>success_url = True,
         url = Some (generateSignedUrl e t_exp t_iat
                  \<lparr>fileId = fid, userId = id_user u, expiresIn = expiresIn_o opts,
                   action = action_o opts, ipAddress = ipAddress_o opts,
                   userAgent = userAgent_o opts\<rparr>),
         error_url = None\<rparr> \<and>
      userId_pl (signedUrlPayload e t_exp t_iat
                  \<lparr>fileId = fid, userId = id_user u, expiresIn = expiresIn_o opts,
                   action = action_o opts, ipAddress = ipAddress_o opts,
                   userAgent = userAgent_o opts\<rparr>) = id_user u)"
proof -
  obtain ac d1 where cfa:
    "checkFileAccess e now st1 fid (Some tok) (ipAddress_o opts) (userAgent_o opts) d = (ac, d1)"
    by (cases "checkFileAccess e now st1 fid (Some tok) (ipAddress_o opts) (userAgent_o opts) d")
  have denied: "\<not> canAccess ac \<Longrightarrow> \<exists>r. reason ac = Some r \<and> r \<noteq> []"
    using checkFileAccess_denial_has_reason
            [of e now st1 fid "Some tok" "ipAddress_o opts" "userAgent_o opts" d]
    by (simp add: cfa)
  have a: "\<not> canAccess ac \<longrightarrow>
      fst (generateSecureDownloadUrl e now st1 t_exp t_iat st2 fid tok opts d) =
        \<lparr>success_url = False, url = None, error_url = reason ac\<rparr> \<and>
      error_url (fst (generateSecureDownloadUrl e now st1 t_exp t_iat st2 fid tok opts d))
        \<noteq> None"
  proof
    assume n: "\<not> canAccess ac"
    then obtain r where r: "reason ac = Some r" "r \<noteq> []" using denied by blast
    with n show "fst (generateSecureDownloadUrl e now st1 t_exp t_iat st2 fid tok opts d) =
        \<lparr>success_url = False, url = None, error_url = reason ac\<rparr> \<and>
      error_url (fst (generateSecureDownloadUrl e now st1 t_exp t_iat st2 fid tok opts d))
        \<noteq> None"
      by (simp add: generateSecureDownloadUrl_def cfa)
  qed
  have b: "canAccess ac \<and> verifySession e tok = None \<longrightarrow>
      fst (generateSecureDownloadUrl e now st1 t_exp t_iat st2 fid tok opts d) =
        \<lparr>success_url = False, url = None, error_url = Some ''Invalid session''\<rparr>"
    by (simp add: generateSecureDownloadUrl_def cfa)
  have c: "\<forall>u. canAccess ac \<and> verifySession e tok = Some u \<longrightarrow>
      fst (generateSecureDownloadUrl e now st1 t_exp t_iat st2 fid tok opts d) =
        \<lparr>success_url = True,
         url = Some (generateSignedUrl e t_exp t_iat
                  \<lparr>fileId = fid, userId = id_user u, expiresIn = expiresIn_o opts,
                   action = action_o opts, ipAddress = ipAddress_o opts,
                   userAgent = userAgent_o opts\<rparr>),
         error_url = None\<rparr> \<and>
      userId_pl (signedUrlPayload e t_exp t_iat
                  \<lparr>fileId = fid, userId = id_user u, expiresIn = expiresIn_o opts,
                   action = action_o opts, ipAddress = ipAddress_o opts,
                   userAgent = userAgent_o opts\<rparr>) = id_user u"
    by (simp add: generateSecureDownloadUrl_def cfa Let_def signedUrlPayload_def)
  from a b c show ?thesis by (simp only: cfa fst_conv) 
qed

theorem generateSecureDownloadUrl_outcomes_witness:
  "canAccess (fst (checkFileAccess vault_env 1700000000000 log_stamp ''f1'' (Some ''tok-alice'')
                None None vault_db)) \<and>
   verifySession vault_env ''tok-alice'' =
     Some \<lparr>id_user = ''alice'', username = ''alice'', email = ''alice@example.org''\<rparr> \<and>
   fst (generateSecureDownloadUrl vault_env 1700000000000 log_stamp 1700000000000
          1700000000000 log_stamp2 ''f1'' ''tok-alice''
          \<lparr>expiresIn_o = None, action_o = None, ipAddress_o = None, userAgent_o = None\<rparr>
          vault_db) =
     \<lparr>success_url = True, url = Some ''/api/files/secure/f1?token=jwt-1&action=download'',
      error_url = None\<rparr>"
proof -
  have a: "canAccess (fst (checkFileAccess vault_env 1700000000000 log_stamp ''f1''
                (Some ''tok-alice'') None None vault_db))"
    by (simp add: checkFileAccess_vault_owner)
  have u: "generateSignedUrl vault_env 1700000000000 1700000000000
             \<lparr>fileId = ''f1'', userId = ''alice'', expiresIn = None, action = None,
              ipAddress = None, userAgent = None\<rparr> =
           ''/api/files/secure/f1?token=jwt-1&action=download''"
    by (simp add: generateSignedUrl_def signedUrlToken_def vault_env_def)
  from generateSecureDownloadUrl_outcomes
         [of vault_env 1700000000000 log_stamp "''f1''" "''tok-alice''"
             "\<lparr>expiresIn_o = None, action_o = None, ipAddress_o = None, userAgent_o = None\<rparr>"
             vault_db 1700000000000 1700000000000 log_stamp2,
          THEN conjunct2, THEN conjunct2, rule_format,
          of "\<lparr>id_user = ''alice'', username = ''alice'', email = ''alice@example.org''\<rparr>"]
  have "fst (generateSecureDownloadUrl vault_env 1700000000000 log_stamp 1700000000000
          1700000000000 log_stamp2 ''f1'' ''tok-alice''
          \<lparr>expiresIn_o = None, action_o = None, ipAddress_o = None, userAgent_o = None\<rparr>
          vault_db) =
     \<lparr>success_url = True, url = Some ''/api/files/secure/f1?token=jwt-1&action=download'',
      error_url = None\<rparr>"
    using a verifySession_vault_alice u by simp
  with a verifySession_vault_alice show ?thesis by blast
qed

subsection \<open>Rate limiter\<close>

text \<open>
  Claim C7. For every identifier whose window is absent or has lapsed, four calls of
  \<open>checkRateLimit\<close> with \<open>maxAttempts = 3\<close> inside one window are allowed with 2, 1 and 0
  remaining and then refused with 0 remaining, the refused call leaving the counter at 3;
  a later call after the reset time starts a new window with count 1 and is allowed.
\<close>

theorem checkRateLimit_window_of_three:
  assumes fresh: "case m identifier of None \<Rightarrow> True | Some c \<Rightarrow> t1 > resetTime c"
    and c1: "checkRateLimit t1 identifier 3 w m = (r1, m1)"
    and c2: "checkRateLimit t2 identifier 3 w m1 = (r2, m2)"
    and c3: "checkRateLimit t3 identifier 3 w m2 = (r3, m3)"
    and c4: "checkRateLimit t4 identifier 3 w m3 = (r4, m4)"
    and c5: "checkRateLimit t5 identifier 3 w m4 = (r5, m5)"
    and within: "t2 \<le> t1 + w * 60 * 1000" "t3 \<le> t1 + w * 60 * 1000"
                "t4 \<le> t1 + w * 60 * 1000"
    and after: "t5 > t1 + w * 60 * 1000"
  shows "r1 = \<lparr>allowed = True, remaining = 2, resetTime_r = t1 + w * 60 * 1000\<rparr> \<and>
         r2 = \<lparr>allowed = True, remaining = 1, resetTime_r = t1 + w * 60 * 1000\<rparr> \<and>
         r3 = \<lparr>allowed = True, remaining = 0, resetTime_r = t1 + w * 60 * 1000\<rparr> \<and>
         r4 = \<lparr>allowed = False, remaining = 0, resetTime_r = t1 + w * 60 * 1000\<rparr> \<and>
         m3 identifier = Some \<lparr>count = 3, resetTime = t1 + w * 60 * 1000\<rparr> \<and>
         m4 = m3 \<and>
         r5 = \<lparr>allowed = True, remaining = 2, resetTime_r = t5 + w * 60 * 1000\<rparr> \<and>
         m5 identifier = Some \<lparr>count = 1, resetTime = t5 + w * 60 * 1000\<rparr>"
proof -
  let ?R = "t1 + w * 60 * 1000"
  from fresh c1 have 1: "r1 = \<lparr>allowed = True, remaining = 2, resetTime_r = ?R\<rparr>"
    and m1: "m1 = m(identifier \<mapsto> \<lparr>count = 1, resetTime = ?R\<rparr>)"
    by (auto simp: checkRateLimit_def Let_def split: option.splits)
  from c2 m1 within(1) have 2: "r2 = \<lparr>allowed = True, remaining = 1, resetTime_r = ?R\<rparr>"
    and m2: "m2 = m1(identifier \<mapsto> \<lparr>count = 2, resetTime = ?R\<rparr>)"
    by (auto simp: checkRateLimit_def Let_def)
  from c3 m2 within(2) have 3: "r3 = \<lparr>allowed = True, remaining = 0, resetTime_r = ?R\<rparr>"
    and m3: "m3 = m2(identifier \<mapsto> \<lparr>count = 3, resetTime = ?R\<rparr>)"
    by (auto simp: checkRateLimit_def Let_def)
  from c4 m3 within(3) have 4: "r4 = \<lparr>allowed = False, remaining = 0, resetTime_r = ?R\<rparr>"
    and m4: "m4 = m3"
    by (auto simp: checkRateLimit_def Let_def)
  from c5 m4 m3 after
  have 5: "r5 = \<lparr>allowed = True, remaining = 2, resetTime_r = t5 + w * 60 * 1000\<rparr>"
    and m5: "m5 identifier = Some \<lparr>count = 1, resetTime = t5 + w * 60 * 1000\<rparr>"
    by (auto simp: checkRateLimit_def Let_def)
  from m3 have "m3 identifier = Some \<lparr>count = 3, resetTime = ?R\<rparr>" by simp
  with 1 2 3 4 5 m4 m5 show ?thesis by blast
qed

theorem checkRateLimit_window_of_three_witness:
  "Map.empty ''10.0.0.7'' = (None :: attempts option) \<and>
   (1000::int) \<le> 0 + 15 * 60 * 1000 \<and> (2000::int) \<le> 0 + 15 * 60 * 1000 \<and>
   (3000::int) \<le> 0 + 15 * 60 * 1000 \<and> (900001::int) > 0 + 15 * 60 * 1000 \<and>
   fst (checkRateLimit 0 ''10.0.0.7'' 3 15 Map.empty) =
     \<lparr>allowed = True, remaining = 2, resetTime_r = 900000\<rparr> \<and>
   fst (checkRateLimit 1000 ''10.0.0.7'' 3 15 after_call1) =
     \<lparr>allowed = True, remaining = 1, resetTime_r = 900000\<rparr> \<and>
   fst (checkRateLimit 2000 ''10.0.0.7'' 3 15 after_call2) =
     \<lparr>allowed = True, remaining = 0, resetTime_r = 900000\<rparr> \<and>
   fst (checkRateLimit 3000 ''10.0.0.7'' 3 15 after_call3) =
     \<lparr>allowed = False, remaining = 0, resetTime_r = 900000\<rparr> \<and>
   after_call4 = after_call3 \<and>
   fst (checkRateLimit 900001 ''10.0.0.7'' 3 15 after_call4) =
     \<lparr>allowed = True, remaining = 2, resetTime_r = 1800001\<rparr>"
proof -
  have fresh: "case Map.empty ''10.0.0.7'' of None \<Rightarrow> True
               | Some (c :: attempts) \<Rightarrow> 0 > resetTime c"
    by simp
  have c1: "checkRateLimit 0 ''10.0.0.7'' 3 15 Map.empty =
              (fst (checkRateLimit 0 ''10.0.0.7'' 3 15 Map.empty), after_call1)"
    and c2: "checkRateLimit 1000 ''10.0.0.7'' 3 15 after_call1 =
              (fst (checkRateLimit 1000 ''10.0.0.7'' 3 15 after_call1), after_call2)"
    and c3: "checkRateLimit 2000 ''10.0.0.7'' 3 15 after_call2 =
              (fst (checkRateLimit 2000 ''10.0.0.7'' 3 15 after_call2), after_call3)"
    and c4: "checkRateLimit 3000 ''10.0.0.7'' 3 15 after_call3 =
              (fst (checkRateLimit 3000 ''10.0.0.7'' 3 15 after_call3), after_call4)"
    and c5: "checkRateLimit 900001 ''10.0.0.7'' 3 15 after_call4 =
              (fst (checkRateLimit 900001 ''10.0.0.7'' 3 15 after_call4),
               snd (checkRateLimit 900001 ''10.0.0.7'' 3 15 after_call4))"
    by (simp_all add: after_call1_def after_call2_def after_call3_def after_call4_def)
  have w: "(1000::int) \<le> 0 + 15 * 60 * 1000" "(2000::int) \<le> 0 + 15 * 60 * 1000"
    "(3000::int) \<le> 0 + 15 * 60 * 1000" and a: "(900001::int) > 0 + 15 * 60 * 1000"
    by simp_all
  have e: "Map.empty ''10.0.0.7'' = (None :: attempts option)" by simp
  note r = checkRateLimit_window_of_three [OF fresh c1 c2 c3 c4 c5 w a]
  have r1: "fst (checkRateLimit 0 ''10.0.0.7'' 3 15 Map.empty) =
     \<lparr>allowed = True, remaining = 2, resetTime_r = 900000\<rparr>"
    using r [THEN conjunct1] by simp
  have r2: "fst (checkRateLimit 1000 ''10.0.0.7'' 3 15 after_call1) =
     \<lparr>allowed = True, remaining = 1, resetTime_r = 900000\<rparr>"
    using r [THEN conjunct2, THEN conjunct1] by simp
  have r3: "fst (checkRateLimit 2000 ''10.0.0.7'' 3 15 after_call2) =
     \<lparr>allowed = True, remaining = 0, resetTime_r = 900000\<rparr>"
    using r [THEN conjunct2, THEN conjunct2, THEN conjunct1] by simp
  have r4: "fst (checkRateLimit 3000 ''10.0.0.7'' 3 15 after_call3) =
     \<lparr>allowed = False, remaining = 0, resetTime_r = 900000\<rparr>"
    using r [THEN conjunct2, THEN conjunct2, THEN conjunct2, THEN conjunct1] by simp
  have same: "after_call4 = after_call3"
    using r [THEN conjunct2, THEN conjunct2, THEN conjunct2, THEN conjunct2, THEN conjunct2,
             THEN conjunct1] .
  have r5: "fst (checkRateLimit 900001 ''10.0.0.7'' 3 15 after_call4) =
     \<lparr>allowed = True, remaining = 2, resetTime_r = 1800001\<rparr>"
    using r [THEN conjunct2, THEN conjunct2, THEN conjunct2, THEN conjunct2, THEN conjunct2,
             THEN conjunct2, THEN conjunct1] by simp
  from e w a r1 r2 r3 r4 same r5 show ?thesis by blast
qed

subsection \<open>Revocation\<close>

lemma revokeFileAccess_denied:
  "(getFileById e d fid = Inr None \<longrightarrow>
      fst (revokeFileAccess e g st fid uid d) =
        \<lparr>success_rev = False, newAccessToken = None, error_rev = Some ''File not found''\<rparr> \<and>
      snd (revokeFileAccess e g st fid uid d) = d) \<and>
   (\<forall>f. getFileById e d fid = Inr (Some f) \<and> user_id f \<noteq> uid \<longrightarrow>
      fst (revokeFileAccess e g st fid uid d) =
        \<lparr>success_rev = False, newAccessToken = None,
         error_rev = Some ''Access denied - you are not the owner of this file''\<rparr> \<and>
      snd (revokeFileAccess e g st fid uid d) = d)"
  by (simp add: revokeFileAccess_def)


lemma revokeFileAccess_stores_generated:
  assumes row: "getFileById e d fid = Inr (Some f)" and owner: "user_id f = uid"
    and accepted: "updateFileAccessToken_error e fid g = None"
  shows "fst (revokeFileAccess e g st fid uid d) =
           \<lparr>success_rev = True, newAccessToken = Some g, error_rev = None\<rparr>"
    and "files (snd (revokeFileAccess e g st fid uid d)) =
           (files d)(fid \<mapsto> f\<lparr>access_token := g\<rparr>)"
proof -
  from row have "files d fid = Some f"
    by (simp add: getFileById_def split: option.splits)
  with accepted have upd: "updateFileAccessToken e fid g d =
                      Inr (d\<lparr>files := (files d)(fid \<mapsto> f\<lparr>access_token := g\<rparr>)\<rparr>)"
    by (simp add: updateFileAccessToken_def)
  from row owner upd show "fst (revokeFileAccess e g st fid uid d) =
        \<lparr>success_rev = True, newAccessToken = Some g, error_rev = None\<rparr>"
    by (simp add: revokeFileAccess_def)
  from row owner upd show "files (snd (revokeFileAccess e g st fid uid d)) =
                     (files d)(fid \<mapsto> f\<lparr>access_token := g\<rparr>)"
    by (simp add: revokeFileAccess_def logFileAccess_files)
qed


subsection \<open>Anomaly detector\<close>

text \<open>
  Claim C10. If the storage query for the log rows throws, \<open>detectSuspiciousActivity\<close>
  returns \<open>isSuspicious = false\<close>, no reasons, \<open>accessCount = 0\<close> and \<open>uniqueIPs = 0\<close>: the
  failure is not reported to the caller.
\<close>

theorem detectSuspiciousActivity_fails_open:
  "getFileAccessLogsSince e fid (now - hours * 60 * 60 * 1000) = Inl err \<Longrightarrow>
   detectSuspiciousActivity e now fid hours =
     \<lparr>isSuspicious = False, reasons = [], accessCount = 0, uniqueIPs = 0\<rparr>"
  by (simp add: detectSuspiciousActivity_def Let_def)

theorem detectSuspiciousActivity_fails_open_witness:
  "getFileAccessLogsSince broken_logs_env ''f1'' (1700000000000 - 24 * 60 * 60 * 1000) =
     Inl ''SQLITE_BUSY'' \<and>
   detectSuspiciousActivity broken_logs_env 1700000000000 ''f1'' 24 =
     \<lparr>isSuspicious = False, reasons = [], accessCount = 0, uniqueIPs = 0\<rparr>"
proof -
  have q: "getFileAccessLogsSince broken_logs_env ''f1'' (1700000000000 - 24 * 60 * 60 * 1000) =
     Inl ''SQLITE_BUSY''"
    by (simp add: broken_logs_env_def)
  from detectSuspiciousActivity_fails_open [OF q] q show ?thesis by simp
qed

lemma set_set_add: "set (set_add x xs) = insert x (set xs)"
  by (auto simp: set_add_def)

lemma distinct_set_add: "distinct xs \<Longrightarrow> distinct (set_add x xs)"
  by (simp add: set_add_def)

lemma scanLogs_failedAttempts:
  "snd (scanLogs logs ips n) = n + length (filter (\<lambda>entry. \<not> success entry) logs)"
  by (induction logs arbitrary: ips n) simp_all

lemma scanLogs_distinct: "distinct ips \<Longrightarrow> distinct (fst (scanLogs logs ips n))"
  by (induction logs arbitrary: ips n) (simp_all add: distinct_set_add split: option.splits)

lemma scanLogs_ipAddresses:
  "set (fst (scanLogs logs ips n)) =
     set ips \<union> {ip. ip \<noteq> [] \<and> (\<exists>entry \<in> set logs. ip_address entry = Some ip)}"
proof (induction logs arbitrary: ips n)
  case Nil
  show ?case by simp
next
  case (Cons entry logs)
  show ?case
  proof (cases "ip_address entry")
    case None
    then show ?thesis by (auto simp: Cons.IH)
  next
    case (Some ip)
    then show ?thesis by (cases "ip = []") (auto simp: Cons.IH set_set_add)
  qed
qed

lemma scanLogs_size:
  "length (fst (scanLogs logs [] 0)) =
     card {ip. ip \<noteq> [] \<and> (\<exists>entry \<in> set logs. ip_address entry = Some ip)}"
proof -
  have "distinct (fst (scanLogs logs [] 0))" by (rule scanLogs_distinct) simp
  then have "length (fst (scanLogs logs [] 0)) = card (set (fst (scanLogs logs [] 0)))"
    by (simp add: distinct_card)
  then show ?thesis by (simp add: scanLogs_ipAddresses)
qed

lemma failureRate_half:
  "0 < n \<Longrightarrow> ((of_nat f :: rat) / of_nat n > 1 / 2) = (n < 2 * f)"
proof -
  assume n: "0 < n"
  then have "((of_nat f :: rat) / of_nat n > 1 / 2) = ((of_nat n :: rat) < 2 * of_nat f)"
    by (simp add: field_simps)
  also have "\<dots> = ((of_nat n :: rat) < of_nat (2 * f))" by simp
  also have "\<dots> = (n < 2 * f)" by (simp only: of_nat_less_iff)
  finally show ?thesis .
qed

lemma detectSuspiciousActivity_computes:
  assumes range: "\<bar>now - hours * 60 * 60 * 1000\<bar> \<le> MAX_TIME_VALUE"
    and rows: "getFileAccessLogsSince e fid (now - hours * 60 * 60 * 1000) = Inr logs"
  shows "accessCount (detectSuspiciousActivity e now fid hours) = length logs"
    and "uniqueIPs (detectSuspiciousActivity e now fid hours) =
           card {ip. ip \<noteq> [] \<and> (\<exists>entry \<in> set logs. ip_address entry = Some ip)}"
    and "isSuspicious (detectSuspiciousActivity e now fid hours) =
           (length logs > 100 \<or>
            card {ip. ip \<noteq> [] \<and> (\<exists>entry \<in> set logs. ip_address entry = Some ip)} > 20 \<or>
            length (filter (\<lambda>entry. \<not> success entry) logs) > 20 \<or>
            (length logs < 2 * length (filter (\<lambda>entry. \<not> success entry) logs) \<and>
             length logs > 10))"
proof -
  obtain ips failed where scan: "scanLogs logs [] 0 = (ips, failed)"
    by (cases "scanLogs logs [] 0")
  have ips: "length ips =
      card {ip. ip \<noteq> [] \<and> (\<exists>entry \<in> set logs. ip_address entry = Some ip)}"
    using scanLogs_size [of logs] by (simp add: scan)
  have failed: "failed = length (filter (\<lambda>entry. \<not> success entry) logs)"
    using scanLogs_failedAttempts [of logs "[]" 0] by (simp add: scan)
  from range rows scan
  show "accessCount (detectSuspiciousActivity e now fid hours) = length logs"
    by (simp add: detectSuspiciousActivity_def Let_def)
  from range rows scan ips
  show "uniqueIPs (detectSuspiciousActivity e now fid hours) =
           card {ip. ip \<noteq> [] \<and> (\<exists>entry \<in> set logs. ip_address entry = Some ip)}"
    by (simp add: detectSuspiciousActivity_def Let_def)
  have rate: "length logs > 10 \<Longrightarrow>
      ((of_nat failed :: rat) / of_nat (length logs) > 1 / 2) = (length logs < 2 * failed)"
    by (rule failureRate_half) auto
  from range rows scan
  have "isSuspicious (detectSuspiciousActivity e now fid hours) =
          (length logs > 100 \<or> length ips > 20 \<or> failed > 20 \<or>
           (length logs < 2 * failed \<and> length logs > 10))"
    using rate by (auto simp: detectSuspiciousActivity_def Let_def)
  with ips failed
  show "isSuspicious (detectSuspiciousActivity e now fid hours) =
           (length logs > 100 \<or>
            card {ip. ip \<noteq> [] \<and> (\<exists>entry \<in> set logs. ip_address entry = Some ip)} > 20 \<or>
            length (filter (\<lambda>entry. \<not> success entry) logs) > 20 \<or>
            (length logs < 2 * length (filter (\<lambda>entry. \<not> success entry) logs) \<and>
             length logs > 10))"
    by simp
qed

lemma detectSuspiciousActivity_many_failures:
  assumes "\<bar>now - hours * 60 * 60 * 1000\<bar> \<le> MAX_TIME_VALUE"
    and "getFileAccessLogsSince e fid (now - hours * 60 * 60 * 1000) = Inr logs"
    and "length (filter (\<lambda>entry. \<not> success entry) logs) \<ge> 21"
  shows "isSuspicious (detectSuspiciousActivity e now fid hours)"
  using assms(3) by (simp add: detectSuspiciousActivity_computes(3) [OF assms(1,2)])

lemma detectSuspiciousActivity_single_failure:
  assumes "\<bar>now - hours * 60 * 60 * 1000\<bar> \<le> MAX_TIME_VALUE"
    and "getFileAccessLogsSince e fid (now - hours * 60 * 60 * 1000) = Inr [entry]"
  shows "\<not> isSuspicious (detectSuspiciousActivity e now fid hours)"
  using assms
  by (simp add: detectSuspiciousActivity_def Let_def set_add_def split: option.splits)

text \<open>
  Claim C8. \<open>detectSuspiciousActivity\<close> should count as unique IPs the distinct addresses
  that are neither empty nor the placeholder \<open>unknown\<close>. For a window holding one row whose
  address is \<open>unknown\<close> the function reports \<open>uniqueIPs = 1\<close>: the placeholder is counted
  as an address. (What the function computes in general is
  \<open>detectSuspiciousActivity_computes\<close>: the number of rows, the number of distinct
  non-empty addresses, and the four independent triggers; 21 failures are flagged and a
  single failed row is not, by the two lemmas above.)
\<close>

theorem detectSuspiciousActivity_counts_unknown:
  "detectSuspiciousActivity unknown_ip_env 1700000000000 ''f1'' 24 =
     \<lparr>isSuspicious = False, reasons = [], accessCount = 1, uniqueIPs = 1\<rparr> \<and>
   getFileAccessLogsSince unknown_ip_env ''f1'' (1700000000000 - 24 * 60 * 60 * 1000) =
     Inr [unknown_ip_row] \<and>
   ip_address unknown_ip_row = Some ''unknown''"
  by (simp add: detectSuspiciousActivity_def Let_def unknown_ip_env_def MAX_TIME_VALUE_def
        unknown_ip_row_def set_add_def)

end
